theory Spec2Isabelle
  imports Main "HOL-Library.FSet" "HOL-Library.Word"
begin

section \<open>UDP/STUN port (talk/p2p/base/stunport.cc)\<close>

subsection \<open>Constants\<close>

text \<open>The three retry constants of stunport.cc, in milliseconds.\<close>

definition KEEPALIVE_DELAY :: int where
  "KEEPALIVE_DELAY = 10 * 1000"

definition RETRY_DELAY :: int where
  "RETRY_DELAY = 50"

definition RETRY_TIMEOUT :: int where
  "RETRY_TIMEOUT = 50 * 1000"

subsection \<open>Data\<close>

text \<open>
  The socket address type \<open>talk_base::SocketAddress\<close> is not among the sources; it is the
  type parameter \<open>'a\<close>, ordered because the port keeps addresses in a \<open>std::set\<close>.
  What the port asks of its socket, of the addresses and of the base class \<open>Port\<close> is
  collected in one record of parameters.
\<close>

record 'a port_env =
  SharedSocket :: bool
  socket_bound :: bool
  GetLocalAddress :: 'a
  IsUnresolved :: "'a \<Rightarrow> bool"
  IsCompatibleAddress :: "'a \<Rightarrow> bool"

text \<open>
  A \<open>StunBindingRequest\<close>: the constructor stores the flag and the server address and
  reads the clock (\<open>talk_base::Time()\<close>, a \<open>uint32\<close> of milliseconds) into \<open>start_time_\<close>.
\<close>

record 'a StunBindingRequest =
  keep_alive :: bool
  server_addr :: 'a
  start_time :: "32 word"

definition new_StunBindingRequest :: "32 word \<Rightarrow> bool \<Rightarrow> 'a \<Rightarrow> 'a StunBindingRequest" where
  "new_StunBindingRequest now ka addr =
     \<lparr>keep_alive = ka, server_addr = addr, start_time = now\<rparr>"

datatype port_type = LOCAL_PORT_TYPE | STUN_PORT_TYPE

text \<open>
  A candidate as \<open>AddAddress\<close> receives it: the address, the base address, the related
  address (\<open>None\<close> for the default-constructed \<open>SocketAddress()\<close>) and the type.
\<close>

record 'a Candidate =
  cand_address :: 'a
  cand_base_address :: 'a
  cand_related_address :: "'a option"
  cand_type :: port_type

datatype port_signal = SignalPortComplete | SignalPortError

text \<open>
  \<open>UDPPort::AddressResolver\<close>: the map \<open>resolvers_\<close> from an input address to its
  resolver. A resolver object is a number; \<open>next_resolver\<close> is the factory's supply of
  fresh ones, and \<open>started\<close> lists the calls of \<open>resolver->Start(address)\<close>.
\<close>

record 'a AddressResolver =
  resolvers :: "'a \<rightharpoonup> nat"
  next_resolver :: nat
  started :: "(nat \<times> 'a) list"

definition new_AddressResolver :: "'a AddressResolver" where
  "new_AddressResolver = \<lparr>resolvers = Map.empty, next_resolver = 0, started = []\<rparr>"

text \<open>
  The fields of \<open>UDPPort\<close> that stunport.cc reads and writes. \<open>requests\<close> lists the
  requests handed to the request manager with their delay (\<open>Send\<close> is delay 0),
  \<open>candidates\<close> the candidates registered, \<open>signals\<close> the completion signals emitted,
  each in the order of the calls.
\<close>

record 'a UDPPort =
  server_addresses :: "'a fset"
  bind_request_succeeded_servers :: "'a fset"
  bind_request_failed_servers :: "'a fset"
  requests :: "('a StunBindingRequest \<times> int) list"
  resolver :: "'a AddressResolver option"
  ready :: bool
  stun_keepalive_delay :: int
  candidates :: "'a Candidate list"
  signals :: "port_signal list"

text \<open>
  Both constructors: nothing done yet, not ready, the keep-alive delay at its constant.
  The server set is configured before the port prepares its address; the constructor of
  the model takes it.
\<close>

definition new_UDPPort :: "'a fset \<Rightarrow> 'a UDPPort" where
  "new_UDPPort servers =
     \<lparr>server_addresses = servers,
      bind_request_succeeded_servers = {||},
      bind_request_failed_servers = {||},
      requests = [],
      resolver = None,
      ready = False,
      stun_keepalive_delay = KEEPALIVE_DELAY,
      candidates = [],
      signals = []\<rparr>"

subsection \<open>Collaborators that are not among the sources\<close>

text \<open>
  Modelled from the spec: \<open>Port::AddAddress\<close> (port.cc is missing). The spec says the
  port "registers" a host or server-reflexive candidate; the call appends the candidate
  to the port's candidate list. The last argument \<open>final\<close> is \<open>false\<close> at both calls.
\<close>

definition AddAddress :: "'a \<Rightarrow> 'a \<Rightarrow> 'a option \<Rightarrow> port_type \<Rightarrow> 'a UDPPort \<Rightarrow> 'a UDPPort" where
  "AddAddress address base related ty p =
     p\<lparr>candidates := candidates p @
          [\<lparr>cand_address = address, cand_base_address = base,
            cand_related_address = related, cand_type = ty\<rparr>]\<rparr>"

text \<open>
  Modelled from the spec: \<open>StunRequestManager::Send\<close> and \<open>SendDelayed\<close> (stunrequest.cc is
  missing). \<open>Send(request)\<close> transmits at once, \<open>SendDelayed(request, delay)\<close> schedules the
  first transmission after \<open>delay\<close>; both are recorded in \<open>requests\<close>.
\<close>

definition SendDelayed :: "'a StunBindingRequest \<Rightarrow> int \<Rightarrow> 'a UDPPort \<Rightarrow> 'a UDPPort" where
  "SendDelayed r delay p = p\<lparr>requests := requests p @ [(r, delay)]\<rparr>"

definition Send :: "'a StunBindingRequest \<Rightarrow> 'a UDPPort \<Rightarrow> 'a UDPPort" where
  "Send r p = SendDelayed r 0 p"

text \<open>
  Modelled from the spec: \<open>talk_base::TimeSince\<close> (the time utilities are missing): the
  milliseconds elapsed from \<open>earlier\<close> to the clock value \<open>now\<close>, the signed difference of
  the two 32-bit clock readings.
\<close>

definition TimeSince :: "32 word \<Rightarrow> 32 word \<Rightarrow> int" where
  "TimeSince now earlier = sint (now - earlier)"

subsection \<open>The completion gate\<close>

definition MaybeSetPortCompleteOrError :: "'a port_env \<Rightarrow> 'a UDPPort \<Rightarrow> 'a UDPPort" where
  "MaybeSetPortCompleteOrError env p =
     (if ready p then p
      else
        let servers_done_bind_request =
              fcard (bind_request_failed_servers p) + fcard (bind_request_succeeded_servers p)
        in if fcard (server_addresses p) \<noteq> servers_done_bind_request then p
           else
             let p' = p\<lparr>ready := True\<rparr>
             in if server_addresses p' = {||} \<or>
                   fcard (bind_request_succeeded_servers p') > 0 \<or>
                   SharedSocket env
                then p'\<lparr>signals := signals p' @ [SignalPortComplete]\<rparr>
                else p'\<lparr>signals := signals p' @ [SignalPortError]\<rparr>)"

subsection \<open>Notifications of success and failure\<close>

definition OnStunBindingRequestSucceeded ::
  "'a port_env \<Rightarrow> 'a \<Rightarrow> 'a \<Rightarrow> 'a UDPPort \<Rightarrow> 'a UDPPort" where
  "OnStunBindingRequestSucceeded env stun_server_addr stun_reflected_addr p =
     (if stun_server_addr |\<in>| bind_request_succeeded_servers p then p
      else
        let p1 = p\<lparr>bind_request_succeeded_servers :=
                     finsert stun_server_addr (bind_request_succeeded_servers p)\<rparr>;
            p2 = (if \<not> SharedSocket env \<or> stun_reflected_addr \<noteq> GetLocalAddress env
                  then AddAddress stun_reflected_addr (GetLocalAddress env)
                         (Some (GetLocalAddress env)) STUN_PORT_TYPE p1
                  else p1)
        in MaybeSetPortCompleteOrError env p2)"

definition OnStunBindingOrResolveRequestFailed ::
  "'a port_env \<Rightarrow> 'a \<Rightarrow> 'a UDPPort \<Rightarrow> 'a UDPPort" where
  "OnStunBindingOrResolveRequestFailed env stun_server_addr p =
     (if stun_server_addr |\<in>| bind_request_failed_servers p then p
      else MaybeSetPortCompleteOrError env
             (p\<lparr>bind_request_failed_servers :=
                   finsert stun_server_addr (bind_request_failed_servers p)\<rparr>))"

subsection \<open>The address resolver\<close>

definition Resolve :: "'a \<Rightarrow> 'a AddressResolver \<Rightarrow> 'a AddressResolver" where
  "Resolve address rs =
     (if resolvers rs address \<noteq> None then rs
      else
        let r = next_resolver rs
        in rs\<lparr>resolvers := (resolvers rs)(address \<mapsto> r),
              next_resolver := Suc r,
              started := started rs @ [(r, address)]\<rparr>)"

text \<open>
  \<open>AddressResolver::GetResolvedAddress\<close>. The resolver objects are not among the sources:
  \<open>resolved_by r\<close> is what resolver \<open>r\<close> answers for the port's address family, \<open>None\<close>
  when it answers \<open>false\<close>.
\<close>

definition GetResolvedAddress ::
  "(nat \<Rightarrow> 'a option) \<Rightarrow> 'a AddressResolver \<Rightarrow> 'a \<Rightarrow> 'a option" where
  "GetResolvedAddress resolved_by rs input =
     (case resolvers rs input of None \<Rightarrow> None | Some r \<Rightarrow> resolved_by r)"

definition ResolveStunAddress :: "'a \<Rightarrow> 'a UDPPort \<Rightarrow> 'a UDPPort" where
  "ResolveStunAddress stun_addr p =
     (let rs = (case resolver p of None \<Rightarrow> new_AddressResolver | Some rs \<Rightarrow> rs)
      in p\<lparr>resolver := Some (Resolve stun_addr rs)\<rparr>)"

subsection \<open>Sending binding requests\<close>

text \<open>
  The clock reading \<open>now\<close> is an argument of every entry point that constructs a request.
  The \<open>ASSERT\<close>s on \<open>requests_.empty()\<close> are checks of the debug build and are left out.
\<close>

definition SendStunBindingRequest ::
  "'a port_env \<Rightarrow> 32 word \<Rightarrow> 'a \<Rightarrow> 'a UDPPort \<Rightarrow> 'a UDPPort" where
  "SendStunBindingRequest env now stun_addr p =
     (if IsUnresolved env stun_addr then ResolveStunAddress stun_addr p
      else if socket_bound env then
        (if IsCompatibleAddress env stun_addr
         then Send (new_StunBindingRequest now True stun_addr) p
         else OnStunBindingOrResolveRequestFailed env stun_addr p)
      else p)"

text \<open>The loop over \<open>server_addresses_\<close> visits the set in the order of its elements.\<close>

definition SendStunBindingRequests ::
  "('a::linorder) port_env \<Rightarrow> 32 word \<Rightarrow> 'a UDPPort \<Rightarrow> 'a UDPPort" where
  "SendStunBindingRequests env now p =
     fold (SendStunBindingRequest env now) (sorted_list_of_fset (server_addresses p)) p"

definition MaybePrepareStunCandidate ::
  "('a::linorder) port_env \<Rightarrow> 32 word \<Rightarrow> 'a UDPPort \<Rightarrow> 'a UDPPort" where
  "MaybePrepareStunCandidate env now p =
     (if server_addresses p \<noteq> {||} then SendStunBindingRequests env now p
      else MaybeSetPortCompleteOrError env p)"

definition OnLocalAddressReady ::
  "('a::linorder) port_env \<Rightarrow> 32 word \<Rightarrow> 'a \<Rightarrow> 'a UDPPort \<Rightarrow> 'a UDPPort" where
  "OnLocalAddressReady env now address p =
     MaybePrepareStunCandidate env now (AddAddress address address None LOCAL_PORT_TYPE p)"

definition PrepareAddress ::
  "('a::linorder) port_env \<Rightarrow> 32 word \<Rightarrow> 'a UDPPort \<Rightarrow> 'a UDPPort" where
  "PrepareAddress env now p =
     (if socket_bound env then OnLocalAddressReady env now (GetLocalAddress env) p else p)"

text \<open>
  \<open>UDPPort::OnResolveResult\<close>. The code asserts that \<open>resolver_\<close> is set and then calls
  through it; without a resolver there is no result, \<open>None\<close>.
\<close>

definition OnResolveResult ::
  "'a port_env \<Rightarrow> 32 word \<Rightarrow> (nat \<Rightarrow> 'a option) \<Rightarrow> 'a \<Rightarrow> int \<Rightarrow> 'a UDPPort
     \<Rightarrow> 'a UDPPort option" where
  "OnResolveResult env now resolved_by input error p =
     (case resolver p of
        None \<Rightarrow> None
      | Some rs \<Rightarrow>
          Some
            (case (if error \<noteq> 0 then None else GetResolvedAddress resolved_by rs input) of
               None \<Rightarrow> OnStunBindingOrResolveRequestFailed env input p
             | Some resolved \<Rightarrow>
                 let p1 = p\<lparr>server_addresses := server_addresses p |-| {|input|}\<rparr>
                 in if resolved |\<notin>| server_addresses p1
                    then SendStunBindingRequest env now resolved
                           (p1\<lparr>server_addresses := finsert resolved (server_addresses p1)\<rparr>)
                    else p1))"

subsection \<open>The handlers of a binding request\<close>

datatype stun_address_family = STUN_ADDRESS_UNDEF | STUN_ADDRESS_IPV4 | STUN_ADDRESS_IPV6

text \<open>The mapped-address attribute of a binding response: its family and the address it carries.\<close>

record 'a StunAddressAttribute =
  family :: stun_address_family
  attr_address :: 'a

text \<open>
  \<open>OnResponse\<close> takes what \<open>response->GetAddress(STUN_ATTR_MAPPED_ADDRESS)\<close> returns, \<open>None\<close> for
  the null pointer. \<open>OnErrorResponse\<close> only logs the error attribute.
\<close>

definition OnResponse ::
  "'a port_env \<Rightarrow> 32 word \<Rightarrow> 'a StunAddressAttribute option \<Rightarrow> 'a StunBindingRequest
     \<Rightarrow> 'a UDPPort \<Rightarrow> 'a UDPPort" where
  "OnResponse env now addr_attr r p =
     (let p1 = (case addr_attr of
                  None \<Rightarrow> p
                | Some a \<Rightarrow>
                    if family a \<noteq> STUN_ADDRESS_IPV4 \<and> family a \<noteq> STUN_ADDRESS_IPV6 then p
                    else OnStunBindingRequestSucceeded env (server_addr r) (attr_address a) p)
      in if keep_alive r
         then SendDelayed (new_StunBindingRequest now True (server_addr r))
                (stun_keepalive_delay p1) p1
         else p1)"

definition OnErrorResponse ::
  "'a port_env \<Rightarrow> 32 word \<Rightarrow> 'a StunBindingRequest \<Rightarrow> 'a UDPPort \<Rightarrow> 'a UDPPort" where
  "OnErrorResponse env now r p =
     (let p1 = OnStunBindingOrResolveRequestFailed env (server_addr r) p
      in if keep_alive r \<and> TimeSince now (start_time r) \<le> RETRY_TIMEOUT
         then SendDelayed (new_StunBindingRequest now True (server_addr r))
                (stun_keepalive_delay p1) p1
         else p1)"

definition OnTimeout ::
  "'a port_env \<Rightarrow> 32 word \<Rightarrow> 'a StunBindingRequest \<Rightarrow> 'a UDPPort \<Rightarrow> 'a UDPPort" where
  "OnTimeout env now r p =
     (let p1 = OnStunBindingOrResolveRequestFailed env (server_addr r) p
      in if keep_alive r \<and> TimeSince now (start_time r) \<le> RETRY_TIMEOUT
         then SendDelayed (new_StunBindingRequest now True (server_addr r)) RETRY_DELAY p1
         else p1)"

subsection \<open>Runs of the port\<close>

text \<open>
  The two notifications a server can cause, and a run of them in the order of arrival.
\<close>

datatype 'a notification = Succeeded 'a 'a | Failed 'a

fun notify :: "'a port_env \<Rightarrow> 'a notification \<Rightarrow> 'a UDPPort \<Rightarrow> 'a UDPPort" where
  "notify env (Succeeded server reflected) p =
     OnStunBindingRequestSucceeded env server reflected p"
| "notify env (Failed server) p = OnStunBindingOrResolveRequestFailed env server p"

definition run_notifications ::
  "'a port_env \<Rightarrow> 'a notification list \<Rightarrow> 'a UDPPort \<Rightarrow> 'a UDPPort" where
  "run_notifications env evs p = fold (notify env) evs p"

definition servers_done :: "'a UDPPort \<Rightarrow> nat" where
  "servers_done p =
     fcard (bind_request_failed_servers p) + fcard (bind_request_succeeded_servers p)"

text \<open>
  The entry points of stunport.cc that write the fields modelled here, as events, and a
  run of events from a state; the run has no result when an event has none.
\<close>

datatype 'a port_event =
    EvPrepareAddress "32 word"
  | EvLocalAddressReady "32 word" 'a
  | EvResolveResult "32 word" "nat \<Rightarrow> 'a option" 'a int
  | EvResponse "32 word" "'a StunAddressAttribute option" "'a StunBindingRequest"
  | EvErrorResponse "32 word" "'a StunBindingRequest"
  | EvTimeout "32 word" "'a StunBindingRequest"

fun dispatch :: "('a::linorder) port_env \<Rightarrow> 'a port_event \<Rightarrow> 'a UDPPort \<Rightarrow> 'a UDPPort option" where
  "dispatch env (EvPrepareAddress now) p = Some (PrepareAddress env now p)"
| "dispatch env (EvLocalAddressReady now address) p = Some (OnLocalAddressReady env now address p)"
| "dispatch env (EvResolveResult now resolved_by input error) p =
     OnResolveResult env now resolved_by input error p"
| "dispatch env (EvResponse now addr_attr r) p = Some (OnResponse env now addr_attr r p)"
| "dispatch env (EvErrorResponse now r) p = Some (OnErrorResponse env now r p)"
| "dispatch env (EvTimeout now r) p = Some (OnTimeout env now r p)"

fun run_events :: "('a::linorder) port_env \<Rightarrow> 'a port_event list \<Rightarrow> 'a UDPPort \<Rightarrow> 'a UDPPort option" where
  "run_events env [] p = Some p"
| "run_events env (e # es) p =
     (case dispatch env e p of None \<Rightarrow> None | Some p' \<Rightarrow> run_events env es p')"

text \<open>
  The relation between the ready flag, the counts and the signals that the gate keeps:
  the port is ready exactly when the done count has reached the number of servers, and it
  has emitted one signal if it is ready and none otherwise.
\<close>

definition gate_inv :: "'a UDPPort \<Rightarrow> bool" where
  "gate_inv p \<longleftrightarrow>
     (ready p \<longleftrightarrow> fcard (server_addresses p) \<le> servers_done p) \<and>
     length (signals p) = (if ready p then 1 else 0)"


text \<open>The port has emitted one signal if it is ready and none otherwise.\<close>

definition one_signal :: "'a UDPPort \<Rightarrow> bool" where
  "one_signal p \<longleftrightarrow> length (signals p) = (if ready p then 1 else 0)"

text \<open>
  What every entry point keeps from the state before it to the state after it: the count
  of signals stays in step with the ready flag, and a port that is ready stays ready and
  emits nothing more.
\<close>

definition settled :: "'a UDPPort \<Rightarrow> 'a UDPPort \<Rightarrow> bool" where
  "settled p p' \<longleftrightarrow>
     (one_signal p \<longrightarrow> one_signal p') \<and>
     (ready p \<longrightarrow> ready p' \<and> signals p' = signals p)"


text \<open>A concrete environment for the examples: a socket of its own, bound, at address 0.\<close>

definition example_env :: "nat port_env" where
  "example_env =
     \<lparr>SharedSocket = False, socket_bound = True, GetLocalAddress = 0,
      IsUnresolved = (\<lambda>a. False), IsCompatibleAddress = (\<lambda>a. True)\<rparr>"

text \<open>
  The same with a socket shared with another port, and with addresses from 100 on being
  unresolved host names.
\<close>

definition example_shared_env :: "nat port_env" where
  "example_shared_env =
     \<lparr>SharedSocket = True, socket_bound = True, GetLocalAddress = 0,
      IsUnresolved = (\<lambda>a. 100 \<le> a), IsCompatibleAddress = (\<lambda>a. True)\<rparr>"

section \<open>Transport (declared in webrtc/p2p/base, exercised by transport_unittest.cc)\<close>

text \<open>
  The transport's implementation is not among the sources; only its unit test is. The
  definitions of this section follow the specification of the transport, with the names
  the unit test uses.
\<close>

subsection \<open>Data\<close>

datatype IceRole = ICEROLE_CONTROLLING | ICEROLE_CONTROLLED

datatype IceMode = ICEMODE_FULL | ICEMODE_LITE

datatype ContentAction = CA_OFFER | CA_PRANSWER | CA_ANSWER

text \<open>The ICE parameters of a transport description.\<close>

record TransportDescription =
  ice_ufrag :: string
  ice_pwd :: string
  ice_mode :: IceMode

text \<open>The three-argument constructor of the unit test leaves the mode at full.\<close>

definition new_TransportDescription :: "string \<Rightarrow> string \<Rightarrow> TransportDescription" where
  "new_TransportDescription ufrag pwd =
     \<lparr>ice_ufrag = ufrag, ice_pwd = pwd, ice_mode = ICEMODE_FULL\<rparr>"

datatype transport_signal = SignalConnecting | SignalCompleted | SignalFailed

datatype transport_error = BadTransportDescription

record Channel =
  writable :: bool
  connection_count :: nat
  candidates_allocated :: bool

text \<open>
  A transport: its role, the committed descriptions, its channels by component, the
  notifications posted to the owning thread and not yet processed (in post order), and the
  signals fired so far.
\<close>

record Transport =
  ice_role :: IceRole
  local_description :: "TransportDescription option"
  remote_description :: "TransportDescription option"
  channels :: "(nat \<times> Channel) list"
  posted :: "transport_signal list"
  fired :: "transport_signal list"

text \<open>
  Modelled from the spec: the transport's constructor and \<open>SetIceRole\<close> (transport.cc is
  missing): "initial role set explicitly before any description exchange".
\<close>

definition new_Transport :: "IceRole \<Rightarrow> Transport" where
  "new_Transport role =
     \<lparr>ice_role = role, local_description = None, remote_description = None,
      channels = [], posted = [], fired = []\<rparr>"

definition SetIceRole :: "IceRole \<Rightarrow> Transport \<Rightarrow> Transport" where
  "SetIceRole role t = t\<lparr>ice_role := role\<rparr>"

subsection \<open>Credentials and roles\<close>

text \<open>
  Modelled from the spec: \<open>IceCredentialsChanged\<close> (transport.cc is missing): "true iff old
  and new (ufrag, pwd) pairs differ in at least one field".
\<close>

definition IceCredentialsChanged :: "string \<Rightarrow> string \<Rightarrow> string \<Rightarrow> string \<Rightarrow> bool" where
  "IceCredentialsChanged old_ufrag old_pwd new_ufrag new_pwd \<longleftrightarrow>
     (old_ufrag, old_pwd) \<noteq> (new_ufrag, new_pwd)"

text \<open>
  Modelled from the spec: the validation of a description (transport.cc is missing):
  applying a description "validates ufrag/pwd presence".
\<close>

definition VerifyIceParams :: "TransportDescription \<Rightarrow> bool" where
  "VerifyIceParams desc \<longleftrightarrow> ice_ufrag desc \<noteq> [] \<and> ice_pwd desc \<noteq> []"

fun flip_role :: "IceRole \<Rightarrow> IceRole" where
  "flip_role ICEROLE_CONTROLLING = ICEROLE_CONTROLLED"
| "flip_role ICEROLE_CONTROLLED = ICEROLE_CONTROLLING"

text \<open>
  Modelled from the spec: \<open>Transport::SetLocalTransportDescription\<close> (transport.cc is
  missing). "Malformed descriptions fail without mutating committed state." "On receiving
  a new local description with changed ice-ufrag/pwd while a remote description already
  exists (an ICE restart triggered locally), role flips relative to current role, unless
  the remote is known to be ICE-LITE, in which case the full-implementation side is pinned
  to CONTROLLING regardless of restart direction." The changed credentials are compared
  with the committed local description.
\<close>

definition SetLocalTransportDescription ::
  "TransportDescription \<Rightarrow> ContentAction \<Rightarrow> Transport \<Rightarrow> transport_error + Transport" where
  "SetLocalTransportDescription desc action t =
     (if \<not> VerifyIceParams desc then Inl BadTransportDescription
      else
        Inr (case (local_description t, remote_description t) of
               (Some old, Some remote) \<Rightarrow>
                 if IceCredentialsChanged (ice_ufrag old) (ice_pwd old)
                      (ice_ufrag desc) (ice_pwd desc)
                 then t\<lparr>ice_role := (if ice_mode remote = ICEMODE_LITE then ICEROLE_CONTROLLING
                                       else flip_role (ice_role t)),
                        local_description := Some desc\<rparr>
                 else t\<lparr>local_description := Some desc\<rparr>
             | _ \<Rightarrow> t\<lparr>local_description := Some desc\<rparr>))"

text \<open>
  Modelled from the spec: \<open>Transport::SetRemoteTransportDescription\<close> (transport.cc is
  missing). The description is validated like a local one; a "lite-mode peer forces
  CONTROLLING on the full-mode peer".
\<close>

definition SetRemoteTransportDescription ::
  "TransportDescription \<Rightarrow> ContentAction \<Rightarrow> Transport \<Rightarrow> transport_error + Transport" where
  "SetRemoteTransportDescription desc action t =
     (if \<not> VerifyIceParams desc then Inl BadTransportDescription
      else
        Inr (t\<lparr>ice_role := (if ice_mode desc = ICEMODE_LITE then ICEROLE_CONTROLLING
                              else ice_role t),
               remote_description := Some desc\<rparr>))"

subsection \<open>Channels, posted notifications and signals\<close>

text \<open>
  Modelled from the spec: the owning thread's queue (the thread class is missing).
  "Events posted to the same thread are delivered in post order": processing the pending
  messages fires every posted notification, in that order.
\<close>

definition post :: "transport_signal \<Rightarrow> Transport \<Rightarrow> Transport" where
  "post sig t = t\<lparr>posted := posted t @ [sig]\<rparr>"

definition ProcessMessages :: "Transport \<Rightarrow> Transport" where
  "ProcessMessages t = t\<lparr>fired := fired t @ posted t, posted := []\<rparr>"

text \<open>
  Modelled from the spec: \<open>CreateChannel\<close>, \<open>ConnectChannels\<close> and \<open>DestroyAllChannels\<close>
  (transport.cc is missing). A channel starts not writable, with no connection.
  Connecting posts the "connecting" notification. "Destroying all channels must
  synchronously cancel any pending asynchronous connecting-notification"; "a destroyed
  object must have all of its pending posted events invalidated".
\<close>

definition new_Channel :: Channel where
  "new_Channel = \<lparr>writable = False, connection_count = 0, candidates_allocated = False\<rparr>"

definition CreateChannel :: "nat \<Rightarrow> Transport \<Rightarrow> Transport" where
  "CreateChannel component t =
     (if map_of (channels t) component \<noteq> None then t
      else t\<lparr>channels := channels t @ [(component, new_Channel)]\<rparr>)"

definition ConnectChannels :: "Transport \<Rightarrow> Transport" where
  "ConnectChannels t = (if channels t = [] then t else post SignalConnecting t)"

definition DestroyAllChannels :: "Transport \<Rightarrow> Transport" where
  "DestroyAllChannels t = t\<lparr>channels := [], posted := []\<rparr>"

text \<open>Changing one channel of the list, by its component.\<close>

definition update_channel ::
  "nat \<Rightarrow> (Channel \<Rightarrow> Channel) \<Rightarrow> (nat \<times> Channel) list \<Rightarrow> (nat \<times> Channel) list" where
  "update_channel component f chs =
     map (\<lambda>(c, ch). if c = component then (c, f ch) else (c, ch)) chs"

text \<open>
  Modelled from the spec: what the unit test's fake channel reports and how the transport
  aggregates it (fakesession.h and transport.cc are missing). "Transport-level COMPLETED
  requires all channels individually writable and a connection-count invariant (each
  channel's underlying candidate-pair count must fall to exactly one surviving path);
  transport-level FAILED fires when a channel's viable connection count drops to zero.
  These are edge-triggered signals, not polled state." The signals are evaluated when a
  channel's count drops, and posted to the owning thread. The spec's conditions do not
  mention candidate allocation, which the channel only records.
\<close>

definition all_channels_completed :: "Transport \<Rightarrow> bool" where
  "all_channels_completed t \<longleftrightarrow>
     list_all (\<lambda>(c, ch). writable ch \<and> connection_count ch = 1) (channels t)"

definition connection_count_dropped :: "nat \<Rightarrow> Transport \<Rightarrow> Transport" where
  "connection_count_dropped component t =
     (let t1 = (if all_channels_completed t then post SignalCompleted t else t)
      in case map_of (channels t1) component of
           None \<Rightarrow> t1
         | Some ch \<Rightarrow> if connection_count ch = 0 then post SignalFailed t1 else t1)"

definition SetConnectionCount :: "nat \<Rightarrow> nat \<Rightarrow> Transport \<Rightarrow> Transport" where
  "SetConnectionCount component n t =
     (case map_of (channels t) component of
        None \<Rightarrow> t
      | Some ch \<Rightarrow>
          let t1 = t\<lparr>channels :=
                      update_channel component (\<lambda>ch. ch\<lparr>connection_count := n\<rparr>) (channels t)\<rparr>
          in if n < connection_count ch then connection_count_dropped component t1 else t1)"

definition SetWritable :: "nat \<Rightarrow> bool \<Rightarrow> Transport \<Rightarrow> Transport" where
  "SetWritable component w t =
     t\<lparr>channels := update_channel component (\<lambda>ch. ch\<lparr>writable := w\<rparr>) (channels t)\<rparr>"

definition SignalCandidatesAllocationDone :: "nat \<Rightarrow> Transport \<Rightarrow> Transport" where
  "SignalCandidatesAllocationDone component t =
     t\<lparr>channels :=
          update_channel component (\<lambda>ch. ch\<lparr>candidates_allocated := True\<rparr>) (channels t)\<rparr>"

subsection \<open>The scenarios of the unit test\<close>

text \<open>The credentials of transport_unittest.cc.\<close>

definition kIceUfrag1 :: string where
  "kIceUfrag1 = ''TESTICEUFRAG0001''"

definition kIcePwd1 :: string where
  "kIcePwd1 = ''TESTICEPWD00000000000001''"

definition kIceUfrag2 :: string where
  "kIceUfrag2 = ''TESTICEUFRAG0002''"

definition kIcePwd2 :: string where
  "kIcePwd2 = ''TESTICEPWD00000000000002''"

text \<open>A test goes on only when a call has succeeded (\<open>ASSERT_TRUE\<close>).\<close>

definition and_then ::
  "transport_error + Transport \<Rightarrow> (Transport \<Rightarrow> transport_error + Transport)
     \<Rightarrow> transport_error + Transport" where
  "and_then r f = (case r of Inl e \<Rightarrow> Inl e | Inr t \<Rightarrow> f t)"

text \<open>
  The common start of the three restart tests: a channel, the role, then the remote and
  the local description with the first credentials; the remote one has the given mode.
\<close>

definition negotiated_transport :: "IceRole \<Rightarrow> IceMode \<Rightarrow> transport_error + Transport" where
  "negotiated_transport role mode =
     and_then
       (SetRemoteTransportDescription
          \<lparr>ice_ufrag = kIceUfrag1, ice_pwd = kIcePwd1, ice_mode = mode\<rparr> CA_OFFER
          (SetIceRole role (CreateChannel 1 (new_Transport role))))
       (SetLocalTransportDescription (new_TransportDescription kIceUfrag1 kIcePwd1) CA_ANSWER)"

text \<open>
  The start of \<open>TestChannelCompletedAndFailed\<close>: a channel with two connections, allocation
  done, writable.
\<close>

definition writable_transport :: Transport where
  "writable_transport =
     SetWritable 1 True
       (SignalCandidatesAllocationDone 1
          (SetConnectionCount 1 2 (CreateChannel 1 (new_Transport ICEROLE_CONTROLLING))))"

section \<open>Properties of the port\<close>

subsection \<open>What the notifications preserve\<close>

lemma MaybeSet_fields [simp]:
  "server_addresses (MaybeSetPortCompleteOrError env p) = server_addresses p"
  "bind_request_succeeded_servers (MaybeSetPortCompleteOrError env p) = bind_request_succeeded_servers p"
  "bind_request_failed_servers (MaybeSetPortCompleteOrError env p) = bind_request_failed_servers p"
  "requests (MaybeSetPortCompleteOrError env p) = requests p"
  "resolver (MaybeSetPortCompleteOrError env p) = resolver p"
  "candidates (MaybeSetPortCompleteOrError env p) = candidates p"
  "stun_keepalive_delay (MaybeSetPortCompleteOrError env p) = stun_keepalive_delay p"
  by (simp_all add: MaybeSetPortCompleteOrError_def Let_def)

lemma servers_done_MaybeSet [simp]:
  "servers_done (MaybeSetPortCompleteOrError env p) = servers_done p"
  by (simp add: servers_done_def)



lemma notify_server_addresses [simp]:
  "server_addresses (notify env e p) = server_addresses p"
  by (cases e)
    (simp_all add: OnStunBindingRequestSucceeded_def OnStunBindingOrResolveRequestFailed_def
      AddAddress_def Let_def)






lemma run_notifications_snoc:
  "run_notifications env (evs @ [e]) p = notify env e (run_notifications env evs p)"
  by (simp add: run_notifications_def)


lemma run_server_addresses [simp]:
  "server_addresses (run_notifications env evs p) = server_addresses p"
  by (induction evs rule: rev_induct)
     (simp_all add: run_notifications_snoc, simp add: run_notifications_def)



subsection \<open>The first requests\<close>

lemma SendStunBindingRequest_server_addresses [simp]:
  "server_addresses (SendStunBindingRequest env now a p) = server_addresses p"
  using notify_server_addresses[of env "Failed a" p]
  by (simp add: SendStunBindingRequest_def ResolveStunAddress_def Send_def SendDelayed_def Let_def)

lemma gate_inv_requests [simp]: "gate_inv (p\<lparr>requests := rs\<rparr>) = gate_inv p"
  by (simp add: gate_inv_def servers_done_def)

lemma gate_inv_resolver [simp]: "gate_inv (p\<lparr>resolver := rs\<rparr>) = gate_inv p"
  by (simp add: gate_inv_def servers_done_def)





subsection \<open>The port becomes ready once\<close>

lemma notify_sets_mono:
  "bind_request_succeeded_servers p |\<subseteq>| bind_request_succeeded_servers (notify env e p) \<and>
   bind_request_failed_servers p |\<subseteq>| bind_request_failed_servers (notify env e p)"
  by (cases e)
    (auto simp: OnStunBindingRequestSucceeded_def OnStunBindingOrResolveRequestFailed_def
      AddAddress_def Let_def)




subsection \<open>Ready at most once, under every event\<close>

lemma settled_refl [simp]: "settled p p"
  by (simp add: settled_def)

















text \<open>
  In the other order, the response first and the resolution result after it, the count
  equals the size of the server set and the port is not ready, since \<open>OnResolveResult\<close> does
  not evaluate the gate; a later time-out of the keep-alive request makes the count 2
  against the size 1.
\<close>

lemma merged_host_name_leaves_port_waiting:
  "map_option (\<lambda>p. (ready p, servers_done p, fcard (server_addresses p)))
     (run_events example_shared_env
        [EvLocalAddressReady 0 0,
         EvResponse 5 (Some \<lparr>family = STUN_ADDRESS_IPV4, attr_address = 7\<rparr>)
           (new_StunBindingRequest 0 True 1),
         EvResolveResult 6 (\<lambda>r. Some 1) 100 0]
        (new_UDPPort {|1, 100|})) = Some (False, 1, 1) \<and>
   map_option (\<lambda>p. (ready p, servers_done p, fcard (server_addresses p)))
     (run_events example_shared_env
        [EvLocalAddressReady 0 0,
         EvResponse 5 (Some \<lparr>family = STUN_ADDRESS_IPV4, attr_address = 7\<rparr>)
           (new_StunBindingRequest 0 True 1),
         EvResolveResult 6 (\<lambda>r. Some 1) 100 0,
         EvTimeout 19505 (new_StunBindingRequest 5 True 1)]
        (new_UDPPort {|1, 100|})) = Some (False, 2, 1)"
  by code_simp

subsection \<open>Which signal the gate emits\<close>

text \<open>
  C2. When the completion gate fires, that is when \<open>MaybeSetPortCompleteOrError\<close> runs on a
  port that is not ready and whose failed and succeeded sets together have as many members
  as the server set, the port becomes ready and exactly one signal is appended:
  \<open>SignalPortComplete\<close> if the server set is empty, or some server succeeded, or the socket
  is shared, and \<open>SignalPortError\<close> in every other case. When the gate does not fire, no
  signal is emitted (the function returns at one of its two guards).
\<close>

theorem gate_signal:
  assumes "\<not> ready p"
    and "fcard (server_addresses p) =
           fcard (bind_request_failed_servers p) + fcard (bind_request_succeeded_servers p)"
  shows "ready (MaybeSetPortCompleteOrError env p) \<and>
    (signals (MaybeSetPortCompleteOrError env p) = signals p @ [SignalPortComplete]
       \<or> signals (MaybeSetPortCompleteOrError env p) = signals p @ [SignalPortError]) \<and>
    (signals (MaybeSetPortCompleteOrError env p) = signals p @ [SignalPortComplete]
       \<longleftrightarrow> server_addresses p = {||} \<or> bind_request_succeeded_servers p \<noteq> {||} \<or>
            SharedSocket env) \<and>
    (signals (MaybeSetPortCompleteOrError env p) = signals p @ [SignalPortError]
       \<longleftrightarrow> \<not> (server_addresses p = {||} \<or> bind_request_succeeded_servers p \<noteq> {||} \<or>
            SharedSocket env))"
  using assms by (auto simp: MaybeSetPortCompleteOrError_def Let_def fcard_fempty)

theorem gate_signal_witness:
  "\<not> ready ((new_UDPPort {|1::nat|})\<lparr>bind_request_failed_servers := {|1|}\<rparr>) \<and>
   signals (MaybeSetPortCompleteOrError
      \<lparr>SharedSocket = False, socket_bound = True, GetLocalAddress = 0,
       IsUnresolved = (\<lambda>a. False), IsCompatibleAddress = (\<lambda>a. True)\<rparr>
      ((new_UDPPort {|1::nat|})\<lparr>bind_request_failed_servers := {|1|}\<rparr>)) = [SignalPortError]"
  using gate_signal [of "(new_UDPPort {|1::nat|})\<lparr>bind_request_failed_servers := {|1|}\<rparr>"
      "\<lparr>SharedSocket = False, socket_bound = True, GetLocalAddress = 0,
       IsUnresolved = (\<lambda>a. False), IsCompatibleAddress = (\<lambda>a. True)\<rparr>"]
  by (simp add: new_UDPPort_def fcard_finsert_if fcard_fempty)

subsection \<open>Resolving an address twice\<close>

text \<open>
  C7. \<open>AddressResolver::Resolve\<close> is idempotent per address: when the address is already a
  key of the resolver map (a resolution is in flight), \<open>Resolve\<close> returns the resolver
  unchanged: the same map, no new resolver object, nothing started. Hence two calls in a
  row do what one does, and the port's \<open>ResolveStunAddress\<close> leaves its resolver as it is.
\<close>

theorem Resolve_idempotent:
  "(address \<in> dom (resolvers rs) \<longrightarrow> Resolve address rs = rs) \<and>
   Resolve address (Resolve address rs) = Resolve address rs \<and>
   (address \<in> dom (resolvers rs) \<longrightarrow>
      resolver (ResolveStunAddress address (p\<lparr>resolver := Some rs\<rparr>)) = Some rs)"
  by (auto simp: Resolve_def Let_def ResolveStunAddress_def)

theorem Resolve_idempotent_witness:
  "(1::nat) \<in> dom (resolvers (Resolve 1 new_AddressResolver)) \<and>
   Resolve 1 (Resolve (1::nat) new_AddressResolver) = Resolve 1 new_AddressResolver \<and>
   next_resolver (Resolve 1 (Resolve (1::nat) new_AddressResolver)) = 1 \<and>
   started (Resolve 1 (Resolve (1::nat) new_AddressResolver)) = [(0, 1)]"
  using Resolve_idempotent [of "1::nat" "Resolve 1 new_AddressResolver"]
  by (simp add: Resolve_def new_AddressResolver_def Let_def)

subsection \<open>The first success of a server\<close>

lemma run_succeeded_mono:
  "s |\<in>| bind_request_succeeded_servers p \<Longrightarrow>
   s |\<in>| bind_request_succeeded_servers (run_notifications env evs p)"
proof (induction evs rule: rev_induct)
  case Nil
  then show ?case by (simp add: run_notifications_def)
next
  case (snoc x xs)
  then show ?case
    using notify_sets_mono[of "run_notifications env xs p" env x]
    by (auto simp: run_notifications_snoc)
qed

text \<open>
  C5. Only the first binding success of a server has an effect. A success for a server that
  is already in the succeeded set returns the port unchanged, and so does any success for
  that server that arrives after its first one, whatever was notified in between. At the
  first success the server enters the succeeded set and the done count grows by one; a
  server-reflexive candidate is registered exactly if the socket is not shared or the
  reflexive address differs from the local address. When the socket is shared and the two
  addresses are equal, no candidate is registered, and the gate is evaluated with the
  server counted.
\<close>

theorem first_success_wins:
  "(server |\<in>| bind_request_succeeded_servers p \<longrightarrow>
      OnStunBindingRequestSucceeded env server reflected p = p) \<and>
   OnStunBindingRequestSucceeded env server reflected'
      (run_notifications env evs (OnStunBindingRequestSucceeded env server reflected p)) =
      run_notifications env evs (OnStunBindingRequestSucceeded env server reflected p) \<and>
   (server |\<notin>| bind_request_succeeded_servers p \<longrightarrow>
      candidates (OnStunBindingRequestSucceeded env server reflected p) =
        candidates p @
          (if \<not> SharedSocket env \<or> reflected \<noteq> GetLocalAddress env
           then [\<lparr>cand_address = reflected, cand_base_address = GetLocalAddress env,
                  cand_related_address = Some (GetLocalAddress env),
                  cand_type = STUN_PORT_TYPE\<rparr>]
           else []) \<and>
      bind_request_succeeded_servers (OnStunBindingRequestSucceeded env server reflected p) =
        finsert server (bind_request_succeeded_servers p) \<and>
      servers_done (OnStunBindingRequestSucceeded env server reflected p) =
        Suc (servers_done p) \<and>
      (SharedSocket env \<and> reflected = GetLocalAddress env \<longrightarrow>
         OnStunBindingRequestSucceeded env server reflected p =
           MaybeSetPortCompleteOrError env
             (p\<lparr>bind_request_succeeded_servers :=
                  finsert server (bind_request_succeeded_servers p)\<rparr>)))"
proof -
  have a: "server |\<in>| bind_request_succeeded_servers q \<Longrightarrow>
      OnStunBindingRequestSucceeded env server r q = q" for q r
    by (simp add: OnStunBindingRequestSucceeded_def)
  have "server |\<in>| bind_request_succeeded_servers
          (OnStunBindingRequestSucceeded env server reflected p)"
    by (simp add: OnStunBindingRequestSucceeded_def Let_def AddAddress_def)
  then have b: "server |\<in>| bind_request_succeeded_servers
      (run_notifications env evs (OnStunBindingRequestSucceeded env server reflected p))"
    by (rule run_succeeded_mono)
  have c: "server |\<notin>| bind_request_succeeded_servers p \<longrightarrow>
      candidates (OnStunBindingRequestSucceeded env server reflected p) =
        candidates p @
          (if \<not> SharedSocket env \<or> reflected \<noteq> GetLocalAddress env
           then [\<lparr>cand_address = reflected, cand_base_address = GetLocalAddress env,
                  cand_related_address = Some (GetLocalAddress env),
                  cand_type = STUN_PORT_TYPE\<rparr>]
           else []) \<and>
      bind_request_succeeded_servers (OnStunBindingRequestSucceeded env server reflected p) =
        finsert server (bind_request_succeeded_servers p) \<and>
      servers_done (OnStunBindingRequestSucceeded env server reflected p) =
        Suc (servers_done p) \<and>
      (SharedSocket env \<and> reflected = GetLocalAddress env \<longrightarrow>
         OnStunBindingRequestSucceeded env server reflected p =
           MaybeSetPortCompleteOrError env
             (p\<lparr>bind_request_succeeded_servers :=
                  finsert server (bind_request_succeeded_servers p)\<rparr>))"
    by (simp add: OnStunBindingRequestSucceeded_def Let_def AddAddress_def servers_done_def
        fcard_finsert_if)
  show ?thesis using a[of p reflected] a[OF b, of reflected'] c by blast
qed

theorem first_success_wins_witness:
  "(1::nat) |\<notin>| bind_request_succeeded_servers (new_UDPPort {|1|}) \<and>
   SharedSocket example_shared_env \<and> 0 = GetLocalAddress example_shared_env \<and>
   candidates (OnStunBindingRequestSucceeded example_shared_env 1 0 (new_UDPPort {|1|})) = [] \<and>
   bind_request_succeeded_servers
     (OnStunBindingRequestSucceeded example_shared_env 1 0 (new_UDPPort {|1|})) = {|1|} \<and>
   ready (OnStunBindingRequestSucceeded example_shared_env 1 0 (new_UDPPort {|1|})) \<and>
   OnStunBindingRequestSucceeded example_shared_env 1 7
     (OnStunBindingRequestSucceeded example_shared_env 1 0 (new_UDPPort {|1|})) =
     OnStunBindingRequestSucceeded example_shared_env 1 0 (new_UDPPort {|1|})"
  using first_success_wins [of 1 "new_UDPPort {|1|}" example_shared_env 0 7 "[]"]
  by (simp add: new_UDPPort_def example_shared_env_def MaybeSetPortCompleteOrError_def
      OnStunBindingRequestSucceeded_def AddAddress_def Let_def
      fcard_finsert_if fcard_fempty run_notifications_def)

subsection \<open>The retry budget of a keep-alive request\<close>

lemma keepalive_AddAddress [simp]:
  "stun_keepalive_delay (AddAddress a b c t p) = stun_keepalive_delay p"
  by (simp add: AddAddress_def)

lemma keepalive_SendDelayed [simp]:
  "stun_keepalive_delay (SendDelayed r d p) = stun_keepalive_delay p"
  by (simp add: SendDelayed_def)

lemma keepalive_Failed [simp]:
  "stun_keepalive_delay (OnStunBindingOrResolveRequestFailed env s p) = stun_keepalive_delay p"
  by (simp add: OnStunBindingOrResolveRequestFailed_def)

lemma keepalive_Succeeded [simp]:
  "stun_keepalive_delay (OnStunBindingRequestSucceeded env s r p) = stun_keepalive_delay p"
  by (simp add: OnStunBindingRequestSucceeded_def Let_def)

lemma keepalive_SendStunBindingRequest [simp]:
  "stun_keepalive_delay (SendStunBindingRequest env now a p) = stun_keepalive_delay p"
  by (simp add: SendStunBindingRequest_def ResolveStunAddress_def Send_def Let_def)

lemma keepalive_fold [simp]:
  "stun_keepalive_delay (fold (SendStunBindingRequest env now) xs p) = stun_keepalive_delay p"
  by (induction xs arbitrary: p) simp_all

lemma keepalive_OnLocalAddressReady [simp]:
  "stun_keepalive_delay (OnLocalAddressReady env now a p) = stun_keepalive_delay p"
  by (simp add: OnLocalAddressReady_def MaybePrepareStunCandidate_def SendStunBindingRequests_def)

lemma keepalive_dispatch:
  "dispatch env e p = Some p' \<Longrightarrow> stun_keepalive_delay p' = stun_keepalive_delay p"
  by (cases e)
    (auto simp: PrepareAddress_def OnResolveResult_def OnResponse_def OnErrorResponse_def
      OnTimeout_def Let_def split: option.splits if_splits)

lemma keepalive_run_events:
  "run_events env es p = Some p' \<Longrightarrow> stun_keepalive_delay p' = stun_keepalive_delay p"
proof (induction es arbitrary: p)
  case Nil
  then show ?case by simp
next
  case (Cons e es)
  then show ?case by (auto split: option.splits dest: keepalive_dispatch)
qed

lemma requests_Failed [simp]:
  "requests (OnStunBindingOrResolveRequestFailed env s p) = requests p"
  by (simp add: OnStunBindingOrResolveRequestFailed_def)

lemma requests_Succeeded [simp]:
  "requests (OnStunBindingRequestSucceeded env s r p) = requests p"
  by (simp add: OnStunBindingRequestSucceeded_def Let_def AddAddress_def)

text \<open>
  C6, as the code has it. The handlers of a binding request \<open>r\<close>, run at the clock value
  \<open>now\<close>, hand the request manager at most one new request, a keep-alive request for the
  same server whose start time is \<open>now\<close>:
  \<^item> \<open>OnTimeout\<close> does so exactly if \<open>r\<close> is a keep-alive request and the time since the
    start of \<open>r\<close>, the request being handled, is at most 50000 ms, with the delay 50 ms;
  \<^item> \<open>OnErrorResponse\<close> does so under the same condition, with the port's keep-alive delay;
  \<^item> \<open>OnResponse\<close> does so for every keep-alive request, with the port's keep-alive delay;
  \<^item> past the 50000 ms of the request being handled the timeout and error paths
    schedule nothing;
  \<^item> the port's keep-alive delay is 10000 ms in every state that a constructed port
    reaches through the entry points of stunport.cc.
  The 50000 ms bound each request, not the chain of requests: the request that is
  scheduled is a new object that starts its own count.
\<close>

theorem keepalive_retry_budget:
  fixes env :: "('a::linorder) port_env"
  shows
  "requests (OnTimeout env now r p) =
     requests p @
       (if keep_alive r \<and> TimeSince now (start_time r) \<le> 50000
        then [(\<lparr>keep_alive = True, server_addr = server_addr r, start_time = now\<rparr>, 50)]
        else []) \<and>
   requests (OnErrorResponse env now r p) =
     requests p @
       (if keep_alive r \<and> TimeSince now (start_time r) \<le> 50000
        then [(\<lparr>keep_alive = True, server_addr = server_addr r, start_time = now\<rparr>,
               stun_keepalive_delay p)]
        else []) \<and>
   requests (OnResponse env now addr_attr r p) =
     requests p @
       (if keep_alive r
        then [(\<lparr>keep_alive = True, server_addr = server_addr r, start_time = now\<rparr>,
               stun_keepalive_delay p)]
        else []) \<and>
   (run_events env es (new_UDPPort S) = Some p \<longrightarrow> stun_keepalive_delay p = 10000)"
proof -
  have "run_events env es (new_UDPPort S) = Some p \<longrightarrow> stun_keepalive_delay p = 10000"
    using keepalive_run_events[of env es "new_UDPPort S" p]
    by (auto simp: new_UDPPort_def KEEPALIVE_DELAY_def)
  then show ?thesis
    by (simp add: OnTimeout_def OnErrorResponse_def OnResponse_def Let_def SendDelayed_def
        new_StunBindingRequest_def RETRY_TIMEOUT_def RETRY_DELAY_def split: option.splits)
qed

theorem keepalive_retry_budget_witness:
  "run_events example_env [EvLocalAddressReady 0 0] (new_UDPPort {|1|}) =
     Some (OnLocalAddressReady example_env 0 0 (new_UDPPort {|1|})) \<and>
   stun_keepalive_delay (OnLocalAddressReady example_env 0 0 (new_UDPPort {|1|})) = 10000 \<and>
   requests (OnTimeout example_env 60001 \<lparr>keep_alive = True, server_addr = 1, start_time = 0\<rparr>
       (OnLocalAddressReady example_env 0 0 (new_UDPPort {|1|}))) =
     requests (OnLocalAddressReady example_env 0 0 (new_UDPPort {|1|})) \<and>
   requests (OnTimeout example_env 20000 \<lparr>keep_alive = True, server_addr = 1, start_time = 0\<rparr>
       (OnLocalAddressReady example_env 0 0 (new_UDPPort {|1|}))) =
     requests (OnLocalAddressReady example_env 0 0 (new_UDPPort {|1|})) @
       [(\<lparr>keep_alive = True, server_addr = 1, start_time = 20000\<rparr>, 50)]"
proof -
  have a: "TimeSince 60001 0 = 60001" "TimeSince 20000 0 = 20000"
    by (simp_all add: TimeSince_def)
  have h: "run_events example_env [EvLocalAddressReady 0 0] (new_UDPPort {|1|}) =
     Some (OnLocalAddressReady example_env 0 0 (new_UDPPort {|1|}))"
    by simp
  show ?thesis
    using h a
      keepalive_retry_budget [of example_env 60001
        "\<lparr>keep_alive = True, server_addr = 1, start_time = 0\<rparr>"
        "OnLocalAddressReady example_env 0 0 (new_UDPPort {|1|})" None
        "[EvLocalAddressReady 0 0]" "{|1|}"]
      keepalive_retry_budget [of example_env 20000
        "\<lparr>keep_alive = True, server_addr = 1, start_time = 0\<rparr>"
        "OnLocalAddressReady example_env 0 0 (new_UDPPort {|1|})" None
        "[EvLocalAddressReady 0 0]" "{|1|}"]
    by simp
qed

text \<open>
  The claim as stated, with a total budget counted from the original request, fails along
  a chain of time-outs: the port sends the original request at 0; each request times out
  9500 ms after its start and its handler schedules the next one, 50 ms later. The
  handler that runs at 57250 ms, more than 50000 ms after the start of the original
  request, still schedules a keep-alive request, since the request it handles started at
  47700 ms.
\<close>

theorem keepalive_chain_counterexample:
  "map_option requests
     (run_events example_env
        [EvLocalAddressReady 0 0,
         EvTimeout 9500 (new_StunBindingRequest 0 True 1),
         EvTimeout 19050 (new_StunBindingRequest 9500 True 1),
         EvTimeout 28600 (new_StunBindingRequest 19050 True 1),
         EvTimeout 38150 (new_StunBindingRequest 28600 True 1),
         EvTimeout 47700 (new_StunBindingRequest 38150 True 1),
         EvTimeout 57250 (new_StunBindingRequest 47700 True 1)]
        (new_UDPPort {|1|})) =
     Some [(new_StunBindingRequest 0 True 1, 0),
           (new_StunBindingRequest 9500 True 1, RETRY_DELAY),
           (new_StunBindingRequest 19050 True 1, RETRY_DELAY),
           (new_StunBindingRequest 28600 True 1, RETRY_DELAY),
           (new_StunBindingRequest 38150 True 1, RETRY_DELAY),
           (new_StunBindingRequest 47700 True 1, RETRY_DELAY),
           (new_StunBindingRequest 57250 True 1, RETRY_DELAY)] \<and>
   RETRY_TIMEOUT < TimeSince 57250 0"
  by code_simp

subsection \<open>A host name that resolves to a known server\<close>

text \<open>
  C10. A host-name server address \<open>input\<close> of the server set resolves without error to the
  address \<open>resolved\<close>.
  \<^item> If \<open>resolved\<close> is already in the server set, \<open>OnResolveResult\<close> only erases \<open>input\<close>
    from the set: the set has one member fewer, no binding request is sent, and nothing
    else of the port changes (the gate is not evaluated).
  \<^item> If \<open>resolved\<close> is new, it replaces \<open>input\<close> in the set, whose size stays the same, and
    \<open>SendStunBindingRequest\<close> runs on it; with a bound socket and a compatible address that
    sends one binding request to \<open>resolved\<close>.
  \<^item> So the requests change only when the resolved address is new.
\<close>

theorem resolve_result_shrinks_server_set:
  assumes "resolver p = Some rs"
    and "GetResolvedAddress resolved_by rs input = Some resolved"
    and "input |\<in>| server_addresses p"
    and "IsUnresolved env input" and "\<not> IsUnresolved env resolved"
  shows
  "(resolved |\<in>| server_addresses p \<longrightarrow>
      OnResolveResult env now resolved_by input 0 p =
        Some (p\<lparr>server_addresses := server_addresses p |-| {|input|}\<rparr>) \<and>
      Suc (fcard (server_addresses p |-| {|input|})) = fcard (server_addresses p)) \<and>
   (resolved |\<notin>| server_addresses p \<longrightarrow>
      OnResolveResult env now resolved_by input 0 p =
        Some (SendStunBindingRequest env now resolved
          (p\<lparr>server_addresses := finsert resolved (server_addresses p |-| {|input|})\<rparr>)) \<and>
      fcard (finsert resolved (server_addresses p |-| {|input|})) = fcard (server_addresses p) \<and>
      (socket_bound env \<and> IsCompatibleAddress env resolved \<longrightarrow>
         requests (SendStunBindingRequest env now resolved
             (p\<lparr>server_addresses := finsert resolved (server_addresses p |-| {|input|})\<rparr>)) =
           requests p @ [(\<lparr>keep_alive = True, server_addr = resolved, start_time = now\<rparr>, 0)])) \<and>
   (\<forall>p'. OnResolveResult env now resolved_by input 0 p = Some p' \<longrightarrow>
      fcard (server_addresses p') =
        (if resolved |\<in>| server_addresses p then fcard (server_addresses p) - 1
         else fcard (server_addresses p)) \<and>
      (requests p' \<noteq> requests p \<longrightarrow> resolved |\<notin>| server_addresses p))"
proof -
  have ne: "input \<noteq> resolved" using assms(4,5) by auto
  have c: "Suc (fcard (server_addresses p |-| {|input|})) = fcard (server_addresses p)"
    using assms(3) by (metis fcard_Suc_fminus1)
  have a: "resolved |\<in>| server_addresses p \<Longrightarrow>
      OnResolveResult env now resolved_by input 0 p =
        Some (p\<lparr>server_addresses := server_addresses p |-| {|input|}\<rparr>)"
    using assms(1,2) ne by (simp add: OnResolveResult_def Let_def)
  have b: "resolved |\<notin>| server_addresses p \<Longrightarrow>
      OnResolveResult env now resolved_by input 0 p =
        Some (SendStunBindingRequest env now resolved
          (p\<lparr>server_addresses := finsert resolved (server_addresses p |-| {|input|})\<rparr>))"
    using assms(1,2) ne by (simp add: OnResolveResult_def Let_def)
  have d: "resolved |\<notin>| server_addresses p \<Longrightarrow>
      fcard (finsert resolved (server_addresses p |-| {|input|})) = fcard (server_addresses p)"
    using c by (simp add: fcard_finsert_if)
  have e: "socket_bound env \<and> IsCompatibleAddress env resolved \<Longrightarrow>
      requests (SendStunBindingRequest env now resolved q) =
        requests q @ [(\<lparr>keep_alive = True, server_addr = resolved, start_time = now\<rparr>, 0)]" for q
    using assms(5)
    by (simp add: SendStunBindingRequest_def Send_def SendDelayed_def new_StunBindingRequest_def)
  show ?thesis
  proof (cases "resolved |\<in>| server_addresses p")
    case True
    then show ?thesis using a c by simp
  next
    case False
    then show ?thesis using b d e c by simp
  qed
qed

theorem resolve_result_shrinks_server_set_witness:
  "OnResolveResult example_shared_env 0 (\<lambda>r. Some 1) 100 0
     ((new_UDPPort {|1, 100|})
        \<lparr>resolver := Some (Resolve 100 new_AddressResolver),
         bind_request_succeeded_servers := {|1|}\<rparr>) =
     Some ((new_UDPPort {|1|})
        \<lparr>resolver := Some (Resolve 100 new_AddressResolver),
         bind_request_succeeded_servers := {|1|}\<rparr>) \<and>
   OnResolveResult example_shared_env 7 (\<lambda>r. Some 2) 100 0
     ((new_UDPPort {|1, 100|})\<lparr>resolver := Some (Resolve 100 new_AddressResolver)\<rparr>) =
     Some ((new_UDPPort {|1, 2|})
        \<lparr>resolver := Some (Resolve 100 new_AddressResolver),
         requests := [(\<lparr>keep_alive = True, server_addr = 2, start_time = 7\<rparr>, 0)]\<rparr>)"
proof -
  have g: "GetResolvedAddress (\<lambda>r. Some x) (Resolve 100 new_AddressResolver) (100::nat) = Some x"
    for x :: nat
    by (simp add: GetResolvedAddress_def Resolve_def new_AddressResolver_def Let_def)
  have u: "IsUnresolved example_shared_env 100" "\<not> IsUnresolved example_shared_env 1"
    "\<not> IsUnresolved example_shared_env 2" "socket_bound example_shared_env"
    "IsCompatibleAddress example_shared_env 2"
    by (simp_all add: example_shared_env_def)
  have s: "{|1, 100|} |-| {|100::nat|} = {|1|}" by auto
  have s2: "finsert 2 {|1::nat|} = {|1, 2|}" by auto
  show ?thesis
    using
      resolve_result_shrinks_server_set [of
        "(new_UDPPort {|1, 100|})\<lparr>resolver := Some (Resolve 100 new_AddressResolver),
           bind_request_succeeded_servers := {|1|}\<rparr>"
        "Resolve 100 new_AddressResolver" "\<lambda>r. Some 1" 100 1 example_shared_env 0, OF _ g]
      resolve_result_shrinks_server_set [of
        "(new_UDPPort {|1, 100|})\<lparr>resolver := Some (Resolve 100 new_AddressResolver)\<rparr>"
        "Resolve 100 new_AddressResolver" "\<lambda>r. Some 2" 100 2 example_shared_env 7, OF _ g]
      u s s2
    by (simp add: new_UDPPort_def SendStunBindingRequest_def Send_def SendDelayed_def
        new_StunBindingRequest_def)
qed

section \<open>Properties of the transport\<close>

subsection \<open>Changed credentials\<close>

text \<open>
  C4. For all strings, \<open>IceCredentialsChanged\<close> is true exactly if the two user-name
  fragments differ or the two passwords differ; in particular it is false when both are
  the same. The witness is the four cases of \<open>TestIceCredentialsChanged\<close>.
\<close>

theorem IceCredentialsChanged_iff:
  "(IceCredentialsChanged u1 p1 u2 p2 \<longleftrightarrow> u1 \<noteq> u2 \<or> p1 \<noteq> p2) \<and>
   \<not> IceCredentialsChanged u p u p"
  by (simp add: IceCredentialsChanged_def)

theorem IceCredentialsChanged_iff_witness:
  "IceCredentialsChanged ''u1'' ''p1'' ''u2'' ''p2'' \<and>
   IceCredentialsChanged ''u1'' ''p1'' ''u2'' ''p1'' \<and>
   IceCredentialsChanged ''u1'' ''p1'' ''u1'' ''p2'' \<and>
   \<not> IceCredentialsChanged ''u1'' ''p1'' ''u1'' ''p1''"
  using IceCredentialsChanged_iff [of "''u1''" "''p1''" "''u2''" "''p2''" "''u1''" "''p1''"]
    IceCredentialsChanged_iff [of "''u1''" "''p1''" "''u2''" "''p1''"]
    IceCredentialsChanged_iff [of "''u1''" "''p1''" "''u1''" "''p2''"]
  by simp

subsection \<open>The role after a local restart\<close>

lemma negotiated_transport_eq:
  "negotiated_transport role mode =
     Inr \<lparr>ice_role = (if mode = ICEMODE_LITE then ICEROLE_CONTROLLING else role),
          local_description = Some (new_TransportDescription kIceUfrag1 kIcePwd1),
          remote_description =
            Some \<lparr>ice_ufrag = kIceUfrag1, ice_pwd = kIcePwd1, ice_mode = mode\<rparr>,
          channels = [(1, new_Channel)], posted = [], fired = []\<rparr>"
  by (simp add: negotiated_transport_def and_then_def SetRemoteTransportDescription_def
      SetLocalTransportDescription_def SetIceRole_def CreateChannel_def new_Transport_def
      VerifyIceParams_def new_TransportDescription_def kIceUfrag1_def kIcePwd1_def)

text \<open>
  C3. A transport holds a remote description and a committed local description. Applying
  a well-formed local description whose credentials differ from the committed ones
  succeeds and commits it; with a remote description that is not ICE-LITE a controlled
  transport becomes controlling and a controlling one controlled; with an ICE-LITE remote
  description the transport is controlling afterwards. The witness is
  \<open>TestIceControlledToControllingOnIceRestart\<close>; the two lemmas after it are the other two
  restart tests.
\<close>

theorem local_restart_flips_role:
  assumes "remote_description t = Some remote"
    and "local_description t = Some old"
    and "VerifyIceParams desc"
    and "IceCredentialsChanged (ice_ufrag old) (ice_pwd old) (ice_ufrag desc) (ice_pwd desc)"
  shows "\<exists>t'. SetLocalTransportDescription desc action t = Inr t' \<and>
     local_description t' = Some desc \<and>
     (ice_mode remote \<noteq> ICEMODE_LITE \<and> ice_role t = ICEROLE_CONTROLLED
        \<longrightarrow> ice_role t' = ICEROLE_CONTROLLING) \<and>
     (ice_mode remote \<noteq> ICEMODE_LITE \<and> ice_role t = ICEROLE_CONTROLLING
        \<longrightarrow> ice_role t' = ICEROLE_CONTROLLED) \<and>
     (ice_mode remote = ICEMODE_LITE \<longrightarrow> ice_role t' = ICEROLE_CONTROLLING)"
  using assms by (simp add: SetLocalTransportDescription_def)

theorem local_restart_flips_role_witness:
  "\<exists>t. negotiated_transport ICEROLE_CONTROLLED ICEMODE_FULL = Inr t \<and>
     ice_role t = ICEROLE_CONTROLLED \<and>
     (\<exists>t'. SetLocalTransportDescription (new_TransportDescription kIceUfrag2 kIcePwd2) CA_OFFER t
             = Inr t' \<and>
           ice_role t' = ICEROLE_CONTROLLING)"
proof -
  let ?d1 = "new_TransportDescription kIceUfrag1 kIcePwd1"
  let ?d2 = "new_TransportDescription kIceUfrag2 kIcePwd2"
  let ?t = "\<lparr>ice_role = ICEROLE_CONTROLLED, local_description = Some ?d1,
          remote_description =
            Some \<lparr>ice_ufrag = kIceUfrag1, ice_pwd = kIcePwd1, ice_mode = ICEMODE_FULL\<rparr>,
          channels = [(1, new_Channel)], posted = [], fired = []\<rparr>"
  have n: "negotiated_transport ICEROLE_CONTROLLED ICEMODE_FULL = Inr ?t"
    by (simp add: negotiated_transport_eq)
  have v: "VerifyIceParams ?d2"
    by (simp add: VerifyIceParams_def new_TransportDescription_def kIceUfrag2_def kIcePwd2_def)
  have c: "IceCredentialsChanged (ice_ufrag ?d1) (ice_pwd ?d1) (ice_ufrag ?d2) (ice_pwd ?d2)"
    by (simp add: IceCredentialsChanged_def new_TransportDescription_def kIceUfrag1_def
        kIceUfrag2_def)
  have "\<exists>t'. SetLocalTransportDescription ?d2 CA_OFFER ?t = Inr t' \<and>
           ice_role t' = ICEROLE_CONTROLLING"
    using local_restart_flips_role [of ?t _ ?d1 ?d2 CA_OFFER, OF _ _ v c] by auto
  then show ?thesis using n by simp
qed

lemma unit_test_controlling_to_controlled:
  "\<exists>t'. and_then (negotiated_transport ICEROLE_CONTROLLING ICEMODE_FULL)
           (SetLocalTransportDescription (new_TransportDescription kIceUfrag2 kIcePwd2) CA_ANSWER)
         = Inr t' \<and> ice_role t' = ICEROLE_CONTROLLED"
  by (simp add: negotiated_transport_eq and_then_def SetLocalTransportDescription_def
      VerifyIceParams_def IceCredentialsChanged_def new_TransportDescription_def
      kIceUfrag1_def kIcePwd1_def kIceUfrag2_def kIcePwd2_def)

lemma unit_test_remote_ice_lite:
  "\<exists>t'. and_then (negotiated_transport ICEROLE_CONTROLLING ICEMODE_LITE)
           (SetLocalTransportDescription (new_TransportDescription kIceUfrag2 kIcePwd2) CA_ANSWER)
         = Inr t' \<and> ice_role t' = ICEROLE_CONTROLLING"
  by (simp add: negotiated_transport_eq and_then_def SetLocalTransportDescription_def
      VerifyIceParams_def IceCredentialsChanged_def new_TransportDescription_def
      kIceUfrag1_def kIcePwd1_def kIceUfrag2_def kIcePwd2_def)

subsection \<open>Destroying the channels cancels the posted notification\<close>

lemma ProcessMessages_nothing_posted:
  "posted t = [] \<Longrightarrow> (ProcessMessages ^^ n) t = t"
  by (induction n) (simp_all add: ProcessMessages_def)

text \<open>
  C8. A transport has posted its "connecting" notification and has not fired the signal.
  Were the thread to process its messages now, the signal would fire. If instead all
  channels are destroyed first, nothing is left posted, and however often the thread then
  processes its messages the fired signals stay as they were: the connecting signal does
  not fire. The witness is \<open>TestDestroyAllClearsPosts\<close>.
\<close>

theorem destroy_cancels_connecting:
  assumes "SignalConnecting \<in> set (posted t)"
    and "SignalConnecting \<notin> set (fired t)"
  shows "SignalConnecting \<in> set (fired (ProcessMessages t)) \<and>
    posted (DestroyAllChannels t) = [] \<and>
    fired ((ProcessMessages ^^ n) (DestroyAllChannels t)) = fired t \<and>
    SignalConnecting \<notin> set (fired ((ProcessMessages ^^ n) (DestroyAllChannels t)))"
proof -
  have "posted (DestroyAllChannels t) = []" by (simp add: DestroyAllChannels_def)
  then have "(ProcessMessages ^^ n) (DestroyAllChannels t) = DestroyAllChannels t"
    by (rule ProcessMessages_nothing_posted)
  then show ?thesis using assms by (simp add: DestroyAllChannels_def ProcessMessages_def)
qed

theorem destroy_cancels_connecting_witness:
  "posted (ConnectChannels (CreateChannel 1 (new_Transport ICEROLE_CONTROLLING))) =
     [SignalConnecting] \<and>
   fired (ProcessMessages (ConnectChannels (CreateChannel 1 (new_Transport ICEROLE_CONTROLLING)))) =
     [SignalConnecting] \<and>
   fired (ProcessMessages (DestroyAllChannels
     (ConnectChannels (CreateChannel 1 (new_Transport ICEROLE_CONTROLLING))))) = []"
proof -
  let ?t = "ConnectChannels (CreateChannel 1 (new_Transport ICEROLE_CONTROLLING))"
  have p: "posted ?t = [SignalConnecting]" and f: "fired ?t = []"
    by (simp_all add: ConnectChannels_def CreateChannel_def new_Transport_def post_def)
  have "fired ((ProcessMessages ^^ 1) (DestroyAllChannels ?t)) = fired ?t"
    using destroy_cancels_connecting [of ?t 1] p f by simp
  then show ?thesis using p f by (simp add: ProcessMessages_def)
qed

subsection \<open>Completed and failed, by connection count\<close>

lemma writable_transport_eq:
  "writable_transport =
     \<lparr>ice_role = ICEROLE_CONTROLLING, local_description = None, remote_description = None,
      channels = [(1, \<lparr>writable = True, connection_count = 2, candidates_allocated = True\<rparr>)],
      posted = [], fired = []\<rparr>"
  by (simp add: writable_transport_def SetWritable_def SignalCandidatesAllocationDone_def
      SetConnectionCount_def CreateChannel_def new_Transport_def new_Channel_def
      update_channel_def Let_def)

text \<open>
  C9. A transport has one channel, writable, with candidate allocation finished, two
  connections, and nothing posted. While the count is 2 the channels are not completed
  and processing the thread's messages fires nothing. When the count drops to 1, one
  completed notification is posted and processing it fires \<open>SignalCompleted\<close> once. When
  the count then drops to 0, only the failed notification is posted: \<open>SignalFailed\<close>
  fires and \<open>SignalCompleted\<close> does not fire again. The witness is
  \<open>TestChannelCompletedAndFailed\<close>.
\<close>

theorem completed_then_failed:
  assumes "channels t = [(c, ch)]"
    and "writable ch" and "candidates_allocated ch" and "connection_count ch = 2"
    and "posted t = []"
  shows "fired (ProcessMessages t) = fired t \<and>
    \<not> all_channels_completed t \<and>
    posted (SetConnectionCount c 1 t) = [SignalCompleted] \<and>
    fired (ProcessMessages (SetConnectionCount c 1 t)) = fired t @ [SignalCompleted] \<and>
    posted (SetConnectionCount c 0 (ProcessMessages (SetConnectionCount c 1 t))) = [SignalFailed] \<and>
    fired (ProcessMessages (SetConnectionCount c 0 (ProcessMessages (SetConnectionCount c 1 t)))) =
      fired t @ [SignalCompleted, SignalFailed]"
  using assms
  by (simp add: ProcessMessages_def SetConnectionCount_def connection_count_dropped_def
      all_channels_completed_def update_channel_def post_def Let_def)

theorem completed_then_failed_witness:
  "fired (ProcessMessages writable_transport) = [] \<and>
   fired (ProcessMessages (SetConnectionCount 1 1 writable_transport)) = [SignalCompleted] \<and>
   fired (ProcessMessages (SetConnectionCount 1 0
       (ProcessMessages (SetConnectionCount 1 1 writable_transport)))) =
     [SignalCompleted, SignalFailed]"
  using completed_then_failed [of writable_transport 1
      "\<lparr>writable = True, connection_count = 2, candidates_allocated = True\<rparr>"]
  by (simp add: writable_transport_eq)

end
